theory Spec2Isabelle
  imports Main "HOL-Library.Word"
begin

section \<open>The Geekbox GPIO fan driver (drivers/misc/geekbox-fan.c)\<close>

text \<open>
  The driver keeps one \<open>struct gbox_fan_data\<close> per device. Its control core is the
  delayed work function \<open>fan_work_func\<close> (one poll tick), the mode dispatch
  \<open>gbox_fan_mode_set\<close>, the two attribute callbacks \<open>fan_mode_show\<close> and
  \<open>fan_mode_store\<close>, and \<open>gbox_fan_probe\<close>, \<open>gbox_fan_remove\<close> and
  \<open>gbox_fan_shutdown\<close>. The C \<open>int\<close> and \<open>enum\<close> fields are 32-bit words; the
  comparison of temperatures is the signed one.
\<close>

subsection \<open>Constants\<close>

definition GBOX_FAN_TRIG_TEMP :: "32 word" where
  "GBOX_FAN_TRIG_TEMP = 50"

text \<open>\<open>GBOX_FAN_LOOP_SECS\<close> is \<open>30 * HZ\<close> jiffies; \<open>HZ\<close>, the number of jiffies in
  a second, is fixed by the kernel configuration and is a parameter here.\<close>

definition GBOX_FAN_LOOP_SECS :: "nat \<Rightarrow> nat" where
  "GBOX_FAN_LOOP_SECS hz = 30 * hz"

definition GBOX_FAN_LOOP_NODELAY_SECS :: nat where
  "GBOX_FAN_LOOP_NODELAY_SECS = 0"

definition GBOX_FAN_GPIO_OFF :: int where
  "GBOX_FAN_GPIO_OFF = 0"

definition GBOX_FAN_GPIO_ON :: int where
  "GBOX_FAN_GPIO_ON = 1"

definition GBOX_FAN_STATE_OFF :: "32 word" where
  "GBOX_FAN_STATE_OFF = 0"

definition GBOX_FAN_STATE_ON :: "32 word" where
  "GBOX_FAN_STATE_ON = 1"

definition GBOX_FAN_STATE_AUTO :: "32 word" where
  "GBOX_FAN_STATE_AUTO = 2"

text \<open>The constants of the platform that the file takes from kernel headers:
  the sentinel \<open>INVALID_TEMP\<close> of the temperature sensor and \<open>HZ\<close>.\<close>

record platform =
  INVALID_TEMP :: "32 word"
  HZ :: nat

subsection \<open>State\<close>

text \<open>\<open>struct gbox_fan_data\<close>. The field \<open>mode\<close> has the enum's type but
  \<open>fan_mode_store\<close> writes any parsed \<open>int\<close> into it, so it is a word. The handles
  \<open>pdev\<close>, \<open>regulator\<close> and \<open>class\<close> carry no data of the control core; the
  delayed work \<open>work\<close> lives in the work queue below.\<close>

record gbox_fan_data =
  mode :: "32 word"
  ctrl_gpio :: int
  trig_temp :: "32 word"

text \<open>The calls the driver makes to the GPIO and work-queue collaborators, in order.\<close>

datatype call =
    Cancel_delayed_work
  | Schedule_delayed_work nat
  | Gpio_set_value int int

text \<open>The driver's data together with what its collaborators hold: the level of
  every GPIO line, the queued instances of \<open>fan_data->work\<close> (each with its delay in
  jiffies), and the log of collaborator calls made so far.\<close>

record kernel =
  fan_data :: gbox_fan_data
  gpio :: "int \<Rightarrow> bool"
  wq :: "nat list"
  calls :: "call list"

datatype error = EINVAL | ENOMEM | EIO | PTR_ERR int

subsection \<open>Collaborators\<close>

text \<open>Modelled from the spec: \<open>gpio_set_value\<close> (the kernel's GPIO library, not among
  the sources) is the spec's \<open>set_output(pin_handle, bool)\<close>, infallible once the pin
  is acquired: it drives the line on for a non-zero value and off for zero.\<close>

definition gpio_set_value :: "int \<Rightarrow> int \<Rightarrow> kernel \<Rightarrow> kernel" where
  "gpio_set_value pin v k =
     k\<lparr>gpio := (gpio k)(pin := (v \<noteq> 0)),
       calls := calls k @ [Gpio_set_value pin v]\<rparr>"

text \<open>Modelled from the spec: \<open>schedule_delayed_work\<close> (the kernel's work queue, not
  among the sources) is the spec's \<open>schedule_after(duration)\<close> on a task queue where
  at most one invocation of the poll tick of a controller is ever outstanding: the work
  item is queued with the delay when it is not pending, and the call says so; a request
  for an item that is already pending is refused, returns false and leaves the pending
  one as it is.\<close>

definition schedule_delayed_work :: "nat \<Rightarrow> kernel \<Rightarrow> bool \<times> kernel" where
  "schedule_delayed_work delay k =
     (let k' = k\<lparr>calls := calls k @ [Schedule_delayed_work delay]\<rparr>
      in if wq k = [] then (True, k'\<lparr>wq := wq k @ [delay]\<rparr>) else (False, k'))"

text \<open>Modelled from the spec: \<open>cancel_delayed_work\<close> (the kernel's work queue, not
  among the sources) is the spec's \<open>cancel(TaskHandle)\<close>: it removes the pending
  poll task and says whether there was one; with none pending it is a safe no-op.\<close>

definition cancel_delayed_work :: "kernel \<Rightarrow> bool \<times> kernel" where
  "cancel_delayed_work k =
     (wq k \<noteq> [], k\<lparr>wq := [], calls := calls k @ [Cancel_delayed_work]\<rparr>)"

subsection \<open>The poll tick\<close>

text \<open>\<open>fan_work_func\<close>. The argument \<open>temp\<close> is what
  \<open>rockchip_tsadc_get_temp(0, volt)\<close> returned for the voltage read from the regulator.
  The C condition is \<open>temp > fan_data->trig_temp && temp != INVALID_TEMP\<close> on
  \<open>int\<close>.\<close>

definition fan_work_func :: "platform \<Rightarrow> 32 word \<Rightarrow> kernel \<Rightarrow> kernel" where
  "fan_work_func p temp k =
     (let k1 =
        (if word_sless (trig_temp (fan_data k)) temp \<and> temp \<noteq> INVALID_TEMP p
         then gpio_set_value (ctrl_gpio (fan_data k)) GBOX_FAN_GPIO_ON k
         else gpio_set_value (ctrl_gpio (fan_data k)) GBOX_FAN_GPIO_OFF k)
      in snd (schedule_delayed_work (GBOX_FAN_LOOP_SECS (HZ p)) k1))"

subsection \<open>Mode dispatch\<close>

text \<open>\<open>gbox_fan_mode_set\<close>: the \<open>switch\<close> on \<open>fan_data->mode\<close>, with its
  \<open>default\<close> branch. The function is \<open>void\<close>: what the collaborators return is
  dropped.\<close>

definition gbox_fan_mode_set :: "kernel \<Rightarrow> kernel" where
  "gbox_fan_mode_set k =
     (if mode (fan_data k) = GBOX_FAN_STATE_OFF then
        gpio_set_value (ctrl_gpio (fan_data k)) GBOX_FAN_GPIO_OFF
          (snd (cancel_delayed_work k))
      else if mode (fan_data k) = GBOX_FAN_STATE_ON then
        gpio_set_value (ctrl_gpio (fan_data k)) GBOX_FAN_GPIO_ON
          (snd (cancel_delayed_work k))
      else if mode (fan_data k) = GBOX_FAN_STATE_AUTO then
        snd (schedule_delayed_work GBOX_FAN_LOOP_NODELAY_SECS k)
      else k)"

subsection \<open>The mode attribute\<close>

text \<open>\<open>sprintf\<close>'s \<open>%d\<close>: the decimal digits, after a minus sign for a negative
  value.\<close>

fun dec_digits :: "nat \<Rightarrow> string" where
  "dec_digits n =
     (if n < 10 then [''0123456789'' ! n]
      else dec_digits (n div 10) @ [''0123456789'' ! (n mod 10)])"

declare dec_digits.simps [simp del]

definition sprintf_d :: "int \<Rightarrow> string" where
  "sprintf_d i = (if i < 0 then CHR ''-'' # dec_digits (nat (- i)) else dec_digits (nat i))"

text \<open>\<open>fan_mode_show\<close> fills the buffer and returns the number of characters
  written.\<close>

definition fan_mode_show :: "kernel \<Rightarrow> nat \<times> string" where
  "fan_mode_show k =
     (let buf = ''Fan mode: '' @ sprintf_d (sint (mode (fan_data k))) @ [CHR 0x0A]
      in (length buf, buf))"

text \<open>The assignment \<open>fan_data->mode = m\<close>.\<close>

definition assign_mode :: "32 word \<Rightarrow> kernel \<Rightarrow> kernel" where
  "assign_mode m k = k\<lparr>fan_data := (fan_data k)\<lparr>mode := m\<rparr>\<rparr>"

text \<open>\<open>fan_mode_store\<close>. The argument \<open>parsed\<close> is the outcome of
  \<open>kstrtoint(buf, 3, &mode)\<close>: \<open>None\<close> when it returns non-zero, \<open>Some m\<close> when it
  returns zero having stored \<open>m\<close>. The result is \<open>-EINVAL\<close> or \<open>count\<close>.\<close>

definition fan_mode_store :: "32 word option \<Rightarrow> nat \<Rightarrow> kernel \<Rightarrow> (error + nat) \<times> kernel" where
  "fan_mode_store parsed count k =
     (case parsed of
        None \<Rightarrow> (Inl EINVAL, k)
      | Some m \<Rightarrow>
          (Inr count, gbox_fan_mode_set (assign_mode m k)))"

subsection \<open>Probe, remove and shutdown\<close>

text \<open>What the platform answers during \<open>gbox_fan_probe\<close>: whether
  \<open>devm_kzalloc\<close> returned memory, the value \<open>of_property_read_u32\<close> read for
  \<open>trig-temp\<close> (\<open>None\<close> when it returns a negative code), the number
  \<open>of_get_named_gpio\<close> returned for \<open>ctrl-gpio\<close>, whether \<open>gpio_request\<close> returned
  zero, the error in the pointer \<open>class_create\<close> returned (\<open>None\<close> when it is not
  an error pointer), and the levels of the GPIO lines at that time.\<close>

record probe_env =
  kzalloc_ok :: bool
  of_trig_temp :: "32 word option"
  of_ctrl_gpio :: int
  gpio_request_ok :: bool
  class_create_err :: "int option"
  gpio_lines :: "int \<Rightarrow> bool"

text \<open>\<open>gbox_fan_probe\<close>: \<open>gpio_direction_output\<close> drives the line to the given
  level, \<open>INIT_DELAYED_WORK\<close> leaves the work item idle.\<close>

definition gbox_fan_probe :: "probe_env \<Rightarrow> error + kernel" where
  "gbox_fan_probe e =
     (if \<not> kzalloc_ok e then Inl ENOMEM
      else
        let tt = (case of_trig_temp e of None \<Rightarrow> GBOX_FAN_TRIG_TEMP | Some v \<Rightarrow> v);
            pin = of_ctrl_gpio e
        in if \<not> gpio_request_ok e then Inl EIO
           else
             let lines = (gpio_lines e)(pin := (GBOX_FAN_GPIO_OFF \<noteq> 0));
                 fd = \<lparr>mode = GBOX_FAN_STATE_OFF, ctrl_gpio = pin, trig_temp = tt\<rparr>
             in case class_create_err e of
                  Some err \<Rightarrow> Inl (PTR_ERR err)
                | None \<Rightarrow> Inr \<lparr>fan_data = fd, gpio = lines, wq = [], calls = []\<rparr>)"

definition gbox_fan_remove :: "kernel \<Rightarrow> kernel" where
  "gbox_fan_remove k =
     gbox_fan_mode_set (assign_mode GBOX_FAN_STATE_OFF k)"

definition gbox_fan_shutdown :: "kernel \<Rightarrow> kernel" where
  "gbox_fan_shutdown k =
     gbox_fan_mode_set (assign_mode GBOX_FAN_STATE_OFF k)"

subsection \<open>Runs of the driver\<close>

text \<open>Modelled from the spec: the worker of the kernel's work queue (not among the
  sources) runs the poll task when it is due: it takes the pending instance off the
  queue and calls the work function; with nothing pending no tick runs.\<close>

definition process_one_work :: "platform \<Rightarrow> 32 word \<Rightarrow> kernel \<Rightarrow> kernel" where
  "process_one_work p temp k =
     (case wq k of
        [] \<Rightarrow> k
      | d # rest \<Rightarrow> fan_work_func p temp (k\<lparr>wq := rest\<rparr>))"

text \<open>What can happen to a probed device: a write to the mode attribute, a poll tick
  run by the worker, the body of a tick that was already in flight when a mode change
  came in, and the two teardown paths.\<close>

datatype event =
    Mode_store "32 word option" nat
  | Tick "32 word"
  | Work_func "32 word"
  | Remove
  | Shutdown

fun step :: "platform \<Rightarrow> event \<Rightarrow> kernel \<Rightarrow> kernel" where
  "step p (Mode_store parsed count) k = snd (fan_mode_store parsed count k)"
| "step p (Tick temp) k = process_one_work p temp k"
| "step p (Work_func temp) k = fan_work_func p temp k"
| "step p Remove k = gbox_fan_remove k"
| "step p Shutdown k = gbox_fan_shutdown k"

fun run :: "platform \<Rightarrow> event list \<Rightarrow> kernel \<Rightarrow> kernel" where
  "run p [] k = k"
| "run p (e # es) k = run p es (step p e k)"

subsection \<open>Observations on runs\<close>

text \<open>The collaborator calls that one invocation of \<open>gbox_fan_mode_set\<close> makes.\<close>

definition mode_set_calls :: "kernel \<Rightarrow> call list" where
  "mode_set_calls k = drop (length (calls k)) (calls (gbox_fan_mode_set k))"

text \<open>The events that cancel the pending poll task: a write of Off or On to the mode
  attribute, and the teardown paths, which force the mode to Off.\<close>

fun cancelling :: "event \<Rightarrow> bool" where
  "cancelling (Mode_store (Some m) count) = (m = GBOX_FAN_STATE_OFF \<or> m = GBOX_FAN_STATE_ON)"
| "cancelling (Mode_store None count) = False"
| "cancelling (Tick temp) = False"
| "cancelling (Work_func temp) = False"
| "cancelling Remove = True"
| "cancelling Shutdown = True"

subsection \<open>A concrete device\<close>

text \<open>A board with 100 jiffies to the second whose sensor reports the largest
  \<open>int\<close> for an invalid reading, and a device tree that names line 7 and gives no
  trigger temperature.\<close>

definition board :: platform where
  "board = \<lparr>INVALID_TEMP = 0x7FFFFFFF, HZ = 100\<rparr>"

definition scenario_env :: probe_env where
  "scenario_env =
     \<lparr>kzalloc_ok = True, of_trig_temp = None, of_ctrl_gpio = 7, gpio_request_ok = True,
      class_create_err = None, gpio_lines = (\<lambda>_. False)\<rparr>"

text \<open>That device after probe: mode Off, every line off, no poll task pending.\<close>

definition scenario_A :: kernel where
  "scenario_A =
     \<lparr>fan_data = \<lparr>mode = 0, ctrl_gpio = 7, trig_temp = 50\<rparr>,
      gpio = (\<lambda>_. False), wq = [], calls = []\<rparr>"

text \<open>The same device once Auto has been written to the mode attribute and before the
  first tick has run.\<close>

definition scenario_auto :: kernel where
  "scenario_auto = snd (fan_mode_store (Some GBOX_FAN_STATE_AUTO) 2 scenario_A)"

text \<open>The same device after the first tick, which read 55 degrees: line on, the next
  tick pending in 30 seconds.\<close>

definition scenario_polling :: kernel where
  "scenario_polling = process_one_work board 55 scenario_auto"

section \<open>Properties\<close>

subsection \<open>Effects of the collaborators\<close>

lemma gpio_set_value_gpio:
  "gpio (gpio_set_value pin v k) = (gpio k)(pin := (v \<noteq> 0))"
  by (simp add: gpio_set_value_def)

lemma gpio_set_value_fan_data:
  "fan_data (gpio_set_value pin v k) = fan_data k"
  by (simp add: gpio_set_value_def)

lemma gpio_set_value_wq:
  "wq (gpio_set_value pin v k) = wq k"
  by (simp add: gpio_set_value_def)

lemma gpio_set_value_calls:
  "calls (gpio_set_value pin v k) = calls k @ [Gpio_set_value pin v]"
  by (simp add: gpio_set_value_def)

lemma schedule_delayed_work_gpio:
  "gpio (snd (schedule_delayed_work d k)) = gpio k"
  by (simp add: schedule_delayed_work_def Let_def)

lemma schedule_delayed_work_fan_data:
  "fan_data (snd (schedule_delayed_work d k)) = fan_data k"
  by (simp add: schedule_delayed_work_def Let_def)

lemma schedule_delayed_work_wq:
  "wq (snd (schedule_delayed_work d k)) = (if wq k = [] then [d] else wq k)"
  by (simp add: schedule_delayed_work_def Let_def)

lemma schedule_delayed_work_calls:
  "calls (snd (schedule_delayed_work d k)) = calls k @ [Schedule_delayed_work d]"
  by (simp add: schedule_delayed_work_def Let_def)

lemma schedule_delayed_work_accepts:
  "fst (schedule_delayed_work d k) = (wq k = [])"
  by (simp add: schedule_delayed_work_def Let_def)

lemma cancel_delayed_work_gpio:
  "gpio (snd (cancel_delayed_work k)) = gpio k"
  by (simp add: cancel_delayed_work_def)

lemma cancel_delayed_work_fan_data:
  "fan_data (snd (cancel_delayed_work k)) = fan_data k"
  by (simp add: cancel_delayed_work_def)

lemma cancel_delayed_work_wq:
  "wq (snd (cancel_delayed_work k)) = []"
  by (simp add: cancel_delayed_work_def)

lemma cancel_delayed_work_calls:
  "calls (snd (cancel_delayed_work k)) = calls k @ [Cancel_delayed_work]"
  by (simp add: cancel_delayed_work_def)

lemmas collab_simps =
  gpio_set_value_gpio gpio_set_value_fan_data gpio_set_value_wq gpio_set_value_calls
  schedule_delayed_work_gpio schedule_delayed_work_fan_data schedule_delayed_work_wq
  schedule_delayed_work_calls
  cancel_delayed_work_gpio cancel_delayed_work_fan_data cancel_delayed_work_wq
  cancel_delayed_work_calls

lemmas gbox_consts =
  GBOX_FAN_GPIO_OFF_def GBOX_FAN_GPIO_ON_def GBOX_FAN_STATE_OFF_def
  GBOX_FAN_STATE_ON_def GBOX_FAN_STATE_AUTO_def GBOX_FAN_LOOP_NODELAY_SECS_def
  GBOX_FAN_LOOP_SECS_def GBOX_FAN_TRIG_TEMP_def

subsection \<open>Mode dispatch: the branches\<close>

lemma assign_mode_simps:
  "mode (fan_data (assign_mode m k)) = m"
  "ctrl_gpio (fan_data (assign_mode m k)) = ctrl_gpio (fan_data k)"
  "trig_temp (fan_data (assign_mode m k)) = trig_temp (fan_data k)"
  "gpio (assign_mode m k) = gpio k"
  "wq (assign_mode m k) = wq k"
  "calls (assign_mode m k) = calls k"
  by (simp_all add: assign_mode_def)

lemma mode_set_off:
  "mode (fan_data k) = GBOX_FAN_STATE_OFF \<Longrightarrow>
   gbox_fan_mode_set k =
     gpio_set_value (ctrl_gpio (fan_data k)) GBOX_FAN_GPIO_OFF (snd (cancel_delayed_work k))"
  by (simp add: gbox_fan_mode_set_def)

lemma mode_set_on:
  "mode (fan_data k) = GBOX_FAN_STATE_ON \<Longrightarrow>
   gbox_fan_mode_set k =
     gpio_set_value (ctrl_gpio (fan_data k)) GBOX_FAN_GPIO_ON (snd (cancel_delayed_work k))"
  by (simp add: gbox_fan_mode_set_def gbox_consts)

lemma mode_set_auto:
  "mode (fan_data k) = GBOX_FAN_STATE_AUTO \<Longrightarrow>
   gbox_fan_mode_set k = snd (schedule_delayed_work GBOX_FAN_LOOP_NODELAY_SECS k)"
  by (simp add: gbox_fan_mode_set_def gbox_consts)

lemma mode_set_default:
  "mode (fan_data k) \<noteq> GBOX_FAN_STATE_OFF \<Longrightarrow> mode (fan_data k) \<noteq> GBOX_FAN_STATE_ON \<Longrightarrow>
   mode (fan_data k) \<noteq> GBOX_FAN_STATE_AUTO \<Longrightarrow> gbox_fan_mode_set k = k"
  by (simp add: gbox_fan_mode_set_def)

lemma scenario_auto_eq:
  "scenario_auto =
     \<lparr>fan_data = \<lparr>mode = 2, ctrl_gpio = 7, trig_temp = 50\<rparr>,
      gpio = (\<lambda>_. False), wq = [0], calls = [Schedule_delayed_work 0]\<rparr>"
  by (simp add: scenario_auto_def scenario_A_def fan_mode_store_def assign_mode_def
      gbox_fan_mode_set_def schedule_delayed_work_def gbox_consts Let_def)

lemma scenario_polling_eq:
  "scenario_polling =
     \<lparr>fan_data = \<lparr>mode = 2, ctrl_gpio = 7, trig_temp = 50\<rparr>,
      gpio = (\<lambda>_. False)(7 := True), wq = [3000],
      calls = [Schedule_delayed_work 0, Gpio_set_value 7 1, Schedule_delayed_work 3000]\<rparr>"
  by (simp add: scenario_polling_def scenario_auto_eq process_one_work_def fan_work_func_def
      gpio_set_value_def schedule_delayed_work_def board_def gbox_consts Let_def)

lemma probe_scenario:
  "gbox_fan_probe scenario_env = Inr scenario_A"
  by (simp add: gbox_fan_probe_def scenario_env_def scenario_A_def gbox_consts fun_upd_idem)

subsection \<open>The decision of a poll tick\<close>

text \<open>
  C1. After a poll tick with trigger temperature \<open>T\<close> the control line is on if and
  only if the reading is not the invalid sentinel and is strictly greater than \<open>T\<close>
  (as signed integers); in every other case it is off, in particular for the invalid
  sentinel and for a reading equal to \<open>T\<close>. The tick does not look at the mode, so
  this holds in Auto mode as in any other.
\<close>

theorem fan_work_func_decision:
  "gpio (fan_work_func p temp k) (ctrl_gpio (fan_data k)) =
     (temp \<noteq> INVALID_TEMP p \<and> sint (trig_temp (fan_data k)) < sint temp)
   \<and> \<not> gpio (fan_work_func p (INVALID_TEMP p) k) (ctrl_gpio (fan_data k))
   \<and> \<not> gpio (fan_work_func p (trig_temp (fan_data k)) k) (ctrl_gpio (fan_data k))"
  by (auto simp add: fan_work_func_def Let_def collab_simps gbox_consts word_sless_alt)

theorem fan_work_func_decision_witness:
  "gpio (fan_work_func board 55 scenario_auto) 7
   \<and> \<not> gpio (fan_work_func board 50 scenario_auto) 7
   \<and> \<not> gpio (fan_work_func board 0x7FFFFFFF scenario_auto) 7
   \<and> \<not> gpio (fan_work_func board (- 3) scenario_auto) 7"
  using fan_work_func_decision [of board 55 scenario_auto]
    fan_work_func_decision [of board "- 3" scenario_auto]
  by (simp add: scenario_auto_eq board_def)

subsection \<open>Off and On\<close>

text \<open>
  C2. Writing Off or On to the mode attribute, from any state: the call succeeds; it
  first cancels the poll task, so that none is pending afterwards (also when none was
  pending before), and then drives the control line, off for Off and on for On.
\<close>

theorem mode_store_off_on:
  assumes "m = GBOX_FAN_STATE_OFF \<or> m = GBOX_FAN_STATE_ON"
  shows "fst (fan_mode_store (Some m) count k) = Inr count
    \<and> wq (snd (fan_mode_store (Some m) count k)) = []
    \<and> gpio (snd (fan_mode_store (Some m) count k)) (ctrl_gpio (fan_data k))
        = (m = GBOX_FAN_STATE_ON)
    \<and> calls (snd (fan_mode_store (Some m) count k)) =
        calls k @ [Cancel_delayed_work,
                   Gpio_set_value (ctrl_gpio (fan_data k))
                     (if m = GBOX_FAN_STATE_ON then GBOX_FAN_GPIO_ON else GBOX_FAN_GPIO_OFF)]"
proof -
  from assms show ?thesis
  proof
    assume off: "m = GBOX_FAN_STATE_OFF"
    have "mode (fan_data (assign_mode m k)) = GBOX_FAN_STATE_OFF"
      using off by (simp add: assign_mode_simps)
    from mode_set_off [OF this] off show ?thesis
      by (simp add: fan_mode_store_def collab_simps assign_mode_simps gbox_consts)
  next
    assume on: "m = GBOX_FAN_STATE_ON"
    have "mode (fan_data (assign_mode m k)) = GBOX_FAN_STATE_ON"
      using on by (simp add: assign_mode_simps)
    from mode_set_on [OF this] on show ?thesis
      by (simp add: fan_mode_store_def collab_simps assign_mode_simps gbox_consts)
  qed
qed

theorem mode_store_off_on_witness:
  "(GBOX_FAN_STATE_ON = GBOX_FAN_STATE_OFF \<or> GBOX_FAN_STATE_ON = GBOX_FAN_STATE_ON)
   \<and> wq scenario_auto = [0]
   \<and> \<not> gpio scenario_auto 7
   \<and> fst (fan_mode_store (Some GBOX_FAN_STATE_ON) 2 scenario_auto) = Inr 2
   \<and> wq (snd (fan_mode_store (Some GBOX_FAN_STATE_ON) 2 scenario_auto)) = []
   \<and> gpio (snd (fan_mode_store (Some GBOX_FAN_STATE_ON) 2 scenario_auto)) 7"
  using mode_store_off_on [of GBOX_FAN_STATE_ON 2 scenario_auto]
  by (simp add: scenario_auto_eq)

subsection \<open>At most one pending poll task\<close>

lemma fan_work_func_wq:
  "wq (fan_work_func p temp k) = (if wq k = [] then [GBOX_FAN_LOOP_SECS (HZ p)] else wq k)"
  by (simp add: fan_work_func_def Let_def collab_simps)

lemma gbox_fan_mode_set_wq_le:
  "length (wq k) \<le> Suc 0 \<Longrightarrow> length (wq (gbox_fan_mode_set k)) \<le> Suc 0"
  by (simp add: gbox_fan_mode_set_def collab_simps)

lemma process_one_work_wq_le:
  "length (wq k) \<le> Suc 0 \<Longrightarrow> length (wq (process_one_work p temp k)) \<le> Suc 0"
  by (cases "wq k") (simp_all add: process_one_work_def fan_work_func_wq)

lemma step_wq_le:
  "length (wq k) \<le> Suc 0 \<Longrightarrow> length (wq (step p e k)) \<le> Suc 0"
proof (cases e)
  case (Mode_store parsed count)
  assume "length (wq k) \<le> Suc 0"
  then show ?thesis using Mode_store
    by (cases parsed)
       (simp_all add: fan_mode_store_def gbox_fan_mode_set_wq_le assign_mode_simps)
next
  case (Tick temp)
  assume "length (wq k) \<le> Suc 0"
  then show ?thesis using Tick by (simp add: process_one_work_wq_le)
next
  case (Work_func temp)
  assume "length (wq k) \<le> Suc 0"
  then show ?thesis using Work_func by (simp add: fan_work_func_wq)
next
  case Remove
  assume "length (wq k) \<le> Suc 0"
  then show ?thesis using Remove
    by (simp add: gbox_fan_remove_def gbox_fan_mode_set_wq_le assign_mode_simps)
next
  case Shutdown
  assume "length (wq k) \<le> Suc 0"
  then show ?thesis using Shutdown
    by (simp add: gbox_fan_shutdown_def gbox_fan_mode_set_wq_le assign_mode_simps)
qed

lemma run_wq_le:
  "length (wq k) \<le> Suc 0 \<Longrightarrow> length (wq (run p evs k)) \<le> Suc 0"
  by (induction evs arbitrary: k) (simp_all add: step_wq_le)

lemma probe_wq:
  "gbox_fan_probe e = Inr k \<Longrightarrow> wq k = []"
  by (auto simp add: gbox_fan_probe_def Let_def split: if_splits option.splits)

text \<open>
  C3. After a successful probe, whatever sequence of writes to the mode attribute, poll
  ticks, in-flight tick bodies and teardown calls follows, at most one poll task is
  pending after each of them.
\<close>

theorem at_most_one_pending:
  assumes "gbox_fan_probe e = Inr k0"
  shows "length (wq (run p evs k0)) \<le> 1"
proof -
  have "length (wq k0) \<le> Suc 0"
    using probe_wq [OF assms] by simp
  then have "length (wq (run p evs k0)) \<le> Suc 0" by (rule run_wq_le)
  then show ?thesis by simp
qed

theorem at_most_one_pending_witness:
  "gbox_fan_probe scenario_env = Inr scenario_A
   \<and> length (wq (run board
        [Mode_store (Some 2) 2, Mode_store (Some 2) 2, Tick 55, Mode_store (Some 2) 2,
         Work_func 40]
        scenario_A)) \<le> 1"
  using at_most_one_pending [OF probe_scenario, of board
        "[Mode_store (Some 2) 2, Mode_store (Some 2) 2, Tick 55, Mode_store (Some 2) 2,
          Work_func 40]"]
  by (simp add: probe_scenario)

subsection \<open>Which collaborator calls a mode change makes\<close>

text \<open>
  C4, as stated, fails: entering Auto from the freshly probed device makes a single
  collaborator call, the scheduling request, and no cancellation at all.
\<close>

theorem auto_cancels_first_counterexample:
  "mode_set_calls (assign_mode GBOX_FAN_STATE_AUTO scenario_A) = [Schedule_delayed_work 0]
   \<and> Cancel_delayed_work \<notin> set (mode_set_calls (assign_mode GBOX_FAN_STATE_AUTO scenario_A))"
  by (simp add: mode_set_calls_def assign_mode_def scenario_A_def gbox_fan_mode_set_def
      schedule_delayed_work_def gbox_consts Let_def)

text \<open>
  C4, amended. From any state, also when the mode written is the current one:
  the Off and the On branch cancel the poll task first and set the control line second;
  the Auto branch makes the scheduling request only, with no cancellation before it, and
  a poll task that is already pending stays as it is.
\<close>

theorem mode_set_call_order:
  "mode_set_calls (assign_mode GBOX_FAN_STATE_OFF k) =
     [Cancel_delayed_work, Gpio_set_value (ctrl_gpio (fan_data k)) GBOX_FAN_GPIO_OFF]
   \<and> mode_set_calls (assign_mode GBOX_FAN_STATE_ON k) =
     [Cancel_delayed_work, Gpio_set_value (ctrl_gpio (fan_data k)) GBOX_FAN_GPIO_ON]
   \<and> mode_set_calls (assign_mode GBOX_FAN_STATE_AUTO k) =
     [Schedule_delayed_work GBOX_FAN_LOOP_NODELAY_SECS]
   \<and> wq (gbox_fan_mode_set (assign_mode GBOX_FAN_STATE_AUTO k)) =
     (if wq k = [] then [GBOX_FAN_LOOP_NODELAY_SECS] else wq k)"
proof -
  have off: "mode (fan_data (assign_mode GBOX_FAN_STATE_OFF k)) = GBOX_FAN_STATE_OFF"
    and on: "mode (fan_data (assign_mode GBOX_FAN_STATE_ON k)) = GBOX_FAN_STATE_ON"
    and auto: "mode (fan_data (assign_mode GBOX_FAN_STATE_AUTO k)) = GBOX_FAN_STATE_AUTO"
    by (simp_all add: assign_mode_simps)
  show ?thesis
    by (simp add: mode_set_calls_def mode_set_off [OF off] mode_set_on [OF on]
        mode_set_auto [OF auto] collab_simps assign_mode_simps)
qed

theorem mode_set_call_order_witness:
  "wq scenario_polling = [3000]
   \<and> mode_set_calls (assign_mode GBOX_FAN_STATE_AUTO scenario_polling) =
       [Schedule_delayed_work 0]
   \<and> wq (gbox_fan_mode_set (assign_mode GBOX_FAN_STATE_AUTO scenario_polling)) = [3000]
   \<and> mode_set_calls (assign_mode GBOX_FAN_STATE_OFF scenario_polling) =
       [Cancel_delayed_work, Gpio_set_value 7 0]"
  using mode_set_call_order [of scenario_polling]
  by (simp add: scenario_polling_eq gbox_consts)

subsection \<open>The tick reschedules itself\<close>

lemma fan_work_func_calls:
  "calls (fan_work_func p temp k) =
     calls k @
       [Gpio_set_value (ctrl_gpio (fan_data k))
          (if word_sless (trig_temp (fan_data k)) temp \<and> temp \<noteq> INVALID_TEMP p
           then GBOX_FAN_GPIO_ON else GBOX_FAN_GPIO_OFF),
        Schedule_delayed_work (GBOX_FAN_LOOP_SECS (HZ p))]"
  by (simp add: fan_work_func_def Let_def collab_simps)

lemma process_one_work_wq:
  "wq k \<noteq> [] \<Longrightarrow>
   wq (process_one_work p temp k) =
     (if tl (wq k) = [] then [GBOX_FAN_LOOP_SECS (HZ p)] else tl (wq k))"
  by (cases "wq k") (simp_all add: process_one_work_def fan_work_func_wq)

lemma gbox_fan_mode_set_wq_empty:
  "wq k \<noteq> [] \<Longrightarrow> wq (gbox_fan_mode_set k) = [] \<Longrightarrow>
   mode (fan_data k) = GBOX_FAN_STATE_OFF \<or> mode (fan_data k) = GBOX_FAN_STATE_ON"
  by (simp add: gbox_fan_mode_set_def collab_simps split: if_splits)

lemma step_wq_empty:
  assumes "wq k \<noteq> []" and "wq (step p e k) = []"
  shows "cancelling e"
proof (cases e)
  case (Mode_store parsed count)
  show ?thesis
  proof (cases parsed)
    case None
    with Mode_store assms show ?thesis by (simp add: fan_mode_store_def)
  next
    case (Some m)
    with Mode_store assms
    have "wq (gbox_fan_mode_set (assign_mode m k)) = []" and "wq (assign_mode m k) \<noteq> []"
      by (simp_all add: fan_mode_store_def assign_mode_simps)
    from gbox_fan_mode_set_wq_empty [OF this(2) this(1)] Mode_store Some
    show ?thesis by (simp add: assign_mode_simps)
  qed
next
  case (Tick temp)
  with assms show ?thesis
    by (simp add: process_one_work_wq split: if_splits)
next
  case (Work_func temp)
  with assms show ?thesis by (simp add: fan_work_func_wq)
next
  case Remove
  then show ?thesis by simp
next
  case Shutdown
  then show ?thesis by simp
qed

text \<open>
  C5. Every execution of the work function, whatever the mode and whatever the
  reading (the invalid sentinel included), ends with the request to run again after
  \<open>30 * HZ\<close> jiffies, that is 30 seconds; run by the worker, which has taken the task
  off the queue, it leaves exactly that task pending. The only events after which a
  pending poll task is gone are the cancelling ones: a write of Off or On to the mode
  attribute and the teardown paths.
\<close>

theorem fan_work_func_reschedules:
  "last (calls (fan_work_func p temp k)) = Schedule_delayed_work (30 * HZ p)
   \<and> last (calls (fan_work_func p (INVALID_TEMP p) k)) = Schedule_delayed_work (30 * HZ p)
   \<and> wq (fan_work_func p temp k) \<noteq> []
   \<and> (wq k = [d] \<longrightarrow> wq (process_one_work p temp k) = [30 * HZ p])
   \<and> (wq k \<noteq> [] \<and> wq (step p e k) = [] \<longrightarrow> cancelling e)"
proof -
  have "wq k \<noteq> [] \<and> wq (step p e k) = [] \<longrightarrow> cancelling e"
    using step_wq_empty by blast
  moreover have "wq k = [d] \<longrightarrow> wq (process_one_work p temp k) = [30 * HZ p]"
    by (simp add: process_one_work_wq GBOX_FAN_LOOP_SECS_def)
  moreover have "wq (fan_work_func p temp k) \<noteq> []"
    by (simp add: fan_work_func_wq)
  moreover have "last (calls (fan_work_func p t k)) = Schedule_delayed_work (30 * HZ p)" for t
    by (simp add: fan_work_func_calls GBOX_FAN_LOOP_SECS_def)
  ultimately show ?thesis by blast
qed

theorem fan_work_func_reschedules_witness:
  "wq scenario_auto = [0]
   \<and> wq (snd (fan_mode_store (Some GBOX_FAN_STATE_OFF) 2 scenario_auto)) = []
   \<and> cancelling (Mode_store (Some GBOX_FAN_STATE_OFF) 2)
   \<and> wq (process_one_work board 0x7FFFFFFF scenario_auto) = [3000]
   \<and> last (calls (fan_work_func board 0x7FFFFFFF scenario_auto)) = Schedule_delayed_work 3000"
  using fan_work_func_reschedules
    [of board "0x7FFFFFFF" scenario_auto 0 "Mode_store (Some GBOX_FAN_STATE_OFF) 2"]
  by (simp add: scenario_auto_eq board_def fan_mode_store_def assign_mode_def
      gbox_fan_mode_set_def cancel_delayed_work_def gpio_set_value_def gbox_consts)

subsection \<open>What the mode attribute accepts\<close>

text \<open>
  C6, as stated, fails: the text \<open>10\<close>, which \<open>kstrtoint\<close> reads in base 3 as the
  integer 3, is outside Off, On and Auto, and the write of it (3 bytes with the newline)
  is not rejected: it returns the count.
\<close>

theorem mode_store_out_of_range_counterexample:
  "(3 :: 32 word) \<notin> {GBOX_FAN_STATE_OFF, GBOX_FAN_STATE_ON, GBOX_FAN_STATE_AUTO}
   \<and> fst (fan_mode_store (Some 3) 3 scenario_A) \<noteq> Inl EINVAL
   \<and> fst (fan_mode_store (Some 3) 3 scenario_A) = Inr 3"
  by (simp add: fan_mode_store_def gbox_consts)

text \<open>
  C6, amended. A write to the mode attribute is rejected with \<open>EINVAL\<close> exactly when
  \<open>kstrtoint\<close> fails to parse the text; every integer it parses, inside or outside
  Off, On and Auto, is accepted and the write returns the count.
\<close>

theorem mode_store_rejects_iff_unparsed:
  "(fst (fan_mode_store parsed count k) = Inl EINVAL) = (parsed = None)
   \<and> fst (fan_mode_store (Some m) count k) = Inr count"
  by (cases parsed) (simp_all add: fan_mode_store_def)

theorem mode_store_rejects_iff_unparsed_witness:
  "fst (fan_mode_store None 3 scenario_A) = Inl EINVAL
   \<and> fst (fan_mode_store (Some 5) 3 scenario_A) = Inr 3
   \<and> fst (fan_mode_store (Some 1) 2 scenario_A) = Inr 2"
  using mode_store_rejects_iff_unparsed [of None 3 scenario_A 5]
    mode_store_rejects_iff_unparsed [of "Some 1" 2 scenario_A 1]
  by simp

text \<open>
  C7, as stated, fails: with the poll task already pending, the scheduling collaborator
  refuses the request made by a write of Auto, and the write still returns the count,
  which is no error.
\<close>

theorem auto_schedule_refused_counterexample:
  "\<not> fst (schedule_delayed_work GBOX_FAN_LOOP_NODELAY_SECS
            (assign_mode GBOX_FAN_STATE_AUTO scenario_polling))
   \<and> fst (fan_mode_store (Some GBOX_FAN_STATE_AUTO) 2 scenario_polling) = Inr 2"
  by (simp add: schedule_delayed_work_accepts assign_mode_simps scenario_polling_eq
      fan_mode_store_def)

text \<open>
  C7, amended. A write of Auto returns the count whether or not the scheduling
  collaborator accepts the request: \<open>gbox_fan_mode_set\<close> drops what
  \<open>schedule_delayed_work\<close> returns. When the request is refused, the pending poll
  task, the GPIO lines and the driver's data other than the mode are as before.
\<close>

theorem mode_store_auto_drops_result:
  "fst (fan_mode_store (Some GBOX_FAN_STATE_AUTO) count k) = Inr count
   \<and> (\<not> fst (schedule_delayed_work GBOX_FAN_LOOP_NODELAY_SECS
                (assign_mode GBOX_FAN_STATE_AUTO k)) \<longrightarrow>
        wq (snd (fan_mode_store (Some GBOX_FAN_STATE_AUTO) count k)) = wq k
        \<and> gpio (snd (fan_mode_store (Some GBOX_FAN_STATE_AUTO) count k)) = gpio k
        \<and> fan_data (snd (fan_mode_store (Some GBOX_FAN_STATE_AUTO) count k)) =
            fan_data (assign_mode GBOX_FAN_STATE_AUTO k))"
proof -
  have auto: "mode (fan_data (assign_mode GBOX_FAN_STATE_AUTO k)) = GBOX_FAN_STATE_AUTO"
    by (simp add: assign_mode_simps)
  show ?thesis
    by (simp add: fan_mode_store_def mode_set_auto [OF auto] collab_simps
        schedule_delayed_work_accepts assign_mode_simps)
qed

theorem mode_store_auto_drops_result_witness:
  "\<not> fst (schedule_delayed_work GBOX_FAN_LOOP_NODELAY_SECS
            (assign_mode GBOX_FAN_STATE_AUTO scenario_polling))
   \<and> fst (fan_mode_store (Some GBOX_FAN_STATE_AUTO) 2 scenario_polling) = Inr 2
   \<and> wq (snd (fan_mode_store (Some GBOX_FAN_STATE_AUTO) 2 scenario_polling)) = [3000]
   \<and> gpio (snd (fan_mode_store (Some GBOX_FAN_STATE_AUTO) 2 scenario_polling)) 7"
  using mode_store_auto_drops_result [of 2 scenario_polling]
  by (simp add: schedule_delayed_work_accepts assign_mode_simps scenario_polling_eq)

subsection \<open>Entering Auto\<close>

text \<open>
  C8, as stated, fails: on the device that was probed, switched to Auto and has run its
  first tick, the next tick is pending in 30 seconds (3000 jiffies); a further write of
  Auto is refused by the work queue and leaves that task alone, so no poll tick with
  delay zero is scheduled.
\<close>

theorem auto_zero_delay_counterexample:
  "run board [Mode_store (Some GBOX_FAN_STATE_AUTO) 2, Tick 55] scenario_A = scenario_polling
   \<and> wq (snd (fan_mode_store (Some GBOX_FAN_STATE_AUTO) 2 scenario_polling)) = [3000]
   \<and> 0 \<notin> set (wq (snd (fan_mode_store (Some GBOX_FAN_STATE_AUTO) 2 scenario_polling)))"
proof -
  have "run board [Mode_store (Some GBOX_FAN_STATE_AUTO) 2, Tick 55] scenario_A =
      scenario_polling"
    by (simp add: scenario_polling_def scenario_auto_def)
  moreover
  have "wq (snd (fan_mode_store (Some GBOX_FAN_STATE_AUTO) 2 scenario_polling)) = [3000]"
    by (simp add: scenario_polling_eq fan_mode_store_def assign_mode_def
        gbox_fan_mode_set_def schedule_delayed_work_def gbox_consts Let_def)
  ultimately show ?thesis by simp
qed

text \<open>
  C8, amended. A write of Auto, from any state, makes exactly one collaborator call: the
  request to schedule the poll tick with delay zero. It makes no call that sets a line,
  and the level of every GPIO line, the control line included, is after the call what it
  was before. With no poll task pending before, the task with delay zero is the pending
  one after; with a poll task already pending the request has no effect and that task
  stays pending with the delay it had.
\<close>

theorem mode_store_auto_frame:
  "calls (snd (fan_mode_store (Some GBOX_FAN_STATE_AUTO) count k)) =
     calls k @ [Schedule_delayed_work 0]
   \<and> gpio (snd (fan_mode_store (Some GBOX_FAN_STATE_AUTO) count k)) = gpio k
   \<and> ctrl_gpio (fan_data (snd (fan_mode_store (Some GBOX_FAN_STATE_AUTO) count k))) =
       ctrl_gpio (fan_data k)
   \<and> wq (snd (fan_mode_store (Some GBOX_FAN_STATE_AUTO) count k)) =
       (if wq k = [] then [0] else wq k)"
proof -
  have auto: "mode (fan_data (assign_mode GBOX_FAN_STATE_AUTO k)) = GBOX_FAN_STATE_AUTO"
    by (simp add: assign_mode_simps)
  show ?thesis
    by (simp add: fan_mode_store_def mode_set_auto [OF auto] collab_simps
        assign_mode_simps GBOX_FAN_LOOP_NODELAY_SECS_def)
qed

theorem mode_store_auto_frame_witness:
  "wq scenario_A = []
   \<and> wq (snd (fan_mode_store (Some GBOX_FAN_STATE_AUTO) 2 scenario_A)) = [0]
   \<and> gpio (snd (fan_mode_store (Some GBOX_FAN_STATE_AUTO) 2 scenario_A)) 7 = gpio scenario_A 7
   \<and> wq scenario_polling = [3000]
   \<and> wq (snd (fan_mode_store (Some GBOX_FAN_STATE_AUTO) 2 scenario_polling)) = [3000]
   \<and> gpio (snd (fan_mode_store (Some GBOX_FAN_STATE_AUTO) 2 scenario_polling)) 7 =
       gpio scenario_polling 7"
proof -
  have "wq scenario_A = []" and "wq scenario_polling = [3000]"
    by (simp_all add: scenario_A_def scenario_polling_eq)
  with mode_store_auto_frame [of 2 scenario_A] mode_store_auto_frame [of 2 scenario_polling]
  show ?thesis by simp
qed

subsection \<open>The trigger temperature\<close>








subsection \<open>An unrecognised mode\<close>

lemma sprintf_d_examples:
  "sprintf_d 0 = ''0''" "sprintf_d 12 = ''12''" "sprintf_d (- 305) = ''-305''"
  by (simp_all add: sprintf_d_def dec_digits.simps)

lemma fan_mode_show_negative:
  "fan_mode_show (assign_mode (- 1) scenario_A) = (13, ''Fan mode: -1'' @ [CHR 0x0A])"
  by (simp add: fan_mode_show_def assign_mode_def scenario_A_def sprintf_d_def
      dec_digits.simps Let_def)

text \<open>
  C10. When the integer that \<open>kstrtoint\<close> parsed is none of 0, 1 and 2, the write
  returns the count and stores the integer in the mode field, so that
  \<open>fan_mode_show\<close> prints it; the default branch of the dispatch makes no collaborator
  call, and the GPIO lines and the pending poll task are as before.
\<close>

theorem mode_store_unrecognised:
  assumes "m \<notin> {0, 1, 2}"
  shows "fst (fan_mode_store (Some m) count k) = Inr count
    \<and> mode (fan_data (snd (fan_mode_store (Some m) count k))) = m
    \<and> snd (fan_mode_show (snd (fan_mode_store (Some m) count k))) =
        ''Fan mode: '' @ sprintf_d (sint m) @ [CHR 0x0A]
    \<and> gpio (snd (fan_mode_store (Some m) count k)) = gpio k
    \<and> wq (snd (fan_mode_store (Some m) count k)) = wq k
    \<and> calls (snd (fan_mode_store (Some m) count k)) = calls k"
proof -
  have "mode (fan_data (assign_mode m k)) \<noteq> GBOX_FAN_STATE_OFF"
    and "mode (fan_data (assign_mode m k)) \<noteq> GBOX_FAN_STATE_ON"
    and "mode (fan_data (assign_mode m k)) \<noteq> GBOX_FAN_STATE_AUTO"
    using assms by (simp_all add: assign_mode_simps gbox_consts)
  then have "gbox_fan_mode_set (assign_mode m k) = assign_mode m k"
    by (rule mode_set_default)
  then show ?thesis
    by (simp add: fan_mode_store_def fan_mode_show_def assign_mode_simps Let_def)
qed

theorem mode_store_unrecognised_witness:
  "(3 :: 32 word) \<notin> {0, 1, 2}
   \<and> fst (fan_mode_store (Some 3) 3 scenario_auto) = Inr 3
   \<and> snd (fan_mode_show (snd (fan_mode_store (Some 3) 3 scenario_auto))) =
       ''Fan mode: 3'' @ [CHR 0x0A]
   \<and> wq (snd (fan_mode_store (Some 3) 3 scenario_auto)) = [0]"
  using mode_store_unrecognised [of 3 3 scenario_auto]
  by (simp add: scenario_auto_eq sprintf_d_def dec_digits.simps)

end
